theory Spec2Isabelle
  imports Complex_Main "HOL-Library.Word" "HOL-Library.AList"
begin

section \<open>Flower image classification server\<close>

text \<open>
  A shallow embedding of \<^verbatim>\<open>src/server/server_fastapi_image_model.py\<close>.

  The module is glue between four libraries (Pillow, NumPy, TensorFlow/Keras and
  FastAPI). The functions of the module itself (\<^verbatim>\<open>load_model\<close>,
  \<^verbatim>\<open>preprocess_image\<close>, \<^verbatim>\<open>predict_image\<close>, \<^verbatim>\<open>predict_flower\<close>
  and the module-level statements) are translated line by line. Library calls whose
  result the module cannot determine are fields of the record \<open>libs\<close>, so every
  theorem holds for whatever these calls compute; what the libraries document about
  their results is stated separately in \<open>pil_contract\<close> and assumed only where a
  theorem names it.

  Python exceptions are values: a function that can raise returns \<open>exn + 'a\<close>, with
  \<open>Inl\<close> for the exception. Only subclasses of \<^verbatim>\<open>Exception\<close> are modelled,
  which is what \<^verbatim>\<open>except Exception\<close> catches. Calls of \<^verbatim>\<open>logger\<close> are
  left out: no function of the module reads the log. Texts are kept as UTF-8 byte
  strings; the Korean literals of the source are written out byte by byte.
\<close>

subsection \<open>Exceptions\<close>

datatype exn =
    HTTPException nat string       \<comment> \<open>\<^verbatim>\<open>status_code\<close>, \<^verbatim>\<open>detail\<close>\<close>
  | ValueError string
  | FileNotFoundError string
  | IndexError string
  | AttributeError string
  | KeyError string
  | LibraryError string            \<comment> \<open>any other exception raised inside a library, with its text\<close>

definition and_then :: "exn + 'a \<Rightarrow> ('a \<Rightarrow> exn + 'b) \<Rightarrow> exn + 'b" where
  "and_then r f = (case r of Inl e \<Rightarrow> Inl e | Inr v \<Rightarrow> f v)"

definition try_except :: "exn + 'a \<Rightarrow> (exn \<Rightarrow> exn + 'a) \<Rightarrow> exn + 'a" where
  "try_except body handler = (case body of Inl e \<Rightarrow> handler e | Inr v \<Rightarrow> Inr v)"

subsection \<open>Images and arrays\<close>

type_synonym byte = "8 word"

text \<open>
  A Pillow image: its mode, its size as (width, height) and its pixel bytes in the
  order of \<^verbatim>\<open>tobytes()\<close> (rows from the top, pixels from the left, the bands of
  a pixel next to each other).
\<close>

record pil_image =
  im_mode :: string
  im_size :: "nat \<times> nat"
  im_bytes :: "byte list"

text \<open>The bands of Pillow's standard modes with 8 bits per band (\<^verbatim>\<open>Image.getbands\<close>).\<close>

definition getbands :: "string \<Rightarrow> string list" where
  "getbands m =
     (if m = ''L'' then [''L'']
      else if m = ''P'' then [''P'']
      else if m = ''LA'' then [''L'', ''A'']
      else if m = ''RGB'' then [''R'', ''G'', ''B'']
      else if m = ''RGBA'' then [''R'', ''G'', ''B'', ''A'']
      else if m = ''CMYK'' then [''C'', ''M'', ''Y'', ''K'']
      else if m = ''YCbCr'' then [''Y'', ''Cb'', ''Cr'']
      else if m = ''HSV'' then [''H'', ''S'', ''V'']
      else if m = ''LAB'' then [''L'', ''A'', ''B'']
      else [])"

definition wf_image :: "pil_image \<Rightarrow> bool" where
  "wf_image im \<longleftrightarrow>
     getbands (im_mode im) \<noteq> [] \<and>
     length (im_bytes im) = snd (im_size im) * fst (im_size im) * length (getbands (im_mode im))"

datatype dtype = UInt8 | Float32

text \<open>
  A NumPy array: shape, element type and the elements in row-major order. The
  elements of a \<open>Float32\<close> array are the real numbers that the binary32 values
  denote.
\<close>

record ndarray =
  nd_shape :: "nat list"
  nd_dtype :: dtype
  nd_data :: "real list"

subsection \<open>Binary32 arithmetic\<close>

text \<open>
  Rounding to the nearest binary32 number, ties to even: 24 significant bits, the
  exponent of the leading bit between \<open>-126\<close> and \<open>127\<close> (below \<open>2 powi -126\<close> the
  numbers are subnormal and spaced \<open>2 powi -149\<close> apart). Magnitudes of \<open>2 powi 128\<close>
  and more overflow to infinity in IEEE 754 and are outside this definition; the
  module only divides the integers 0..255 by 255.
\<close>

definition round_half_even :: "real \<Rightarrow> int" where
  "round_half_even y =
     (let f = \<lfloor>y\<rfloor>; d = y - of_int f
      in if d < 1 / 2 then f
         else if 1 / 2 < d then f + 1
         else if even f then f else f + 1)"

definition f32_exponent :: "real \<Rightarrow> int" where
  "f32_exponent x =
     (case List.find (\<lambda>e. 2 powi e \<le> \<bar>x\<bar>) (rev [-126..127]) of
        Some e \<Rightarrow> e
      | None \<Rightarrow> -126)"

definition f32_round :: "real \<Rightarrow> real" where
  "f32_round x =
     (let q = 2 powi (f32_exponent x - 23)
      in of_int (round_half_even (x / q)) * q)"

subsection \<open>The libraries\<close>

text \<open>
  What a call of the loaded model returns: an object with named outputs (each a
  tensor of rank 2, batch by classes, in the order of \<^verbatim>\<open>keys()\<close>), or an object
  without \<^verbatim>\<open>keys()\<close>, given by the text of the \<^verbatim>\<open>AttributeError\<close> that the
  call of \<^verbatim>\<open>keys()\<close> raises on it.
\<close>

datatype model_result =
    Keyed "(string \<times> real list list) list"
  | Unkeyed string

type_synonym keras_model = "ndarray \<Rightarrow> exn + model_result"

record libs =
  pil_open :: "byte list \<Rightarrow> exn + pil_image"                     \<comment> \<open>\<^verbatim>\<open>Image.open(io.BytesIO(b))\<close>\<close>
  pil_convert :: "pil_image \<Rightarrow> string \<Rightarrow> exn + pil_image"         \<comment> \<open>\<^verbatim>\<open>image.convert(mode)\<close>\<close>
  pil_resize :: "pil_image \<Rightarrow> nat \<times> nat \<Rightarrow> exn + pil_image"       \<comment> \<open>\<^verbatim>\<open>image.resize(size)\<close>\<close>
  os_path_expanduser :: "string \<Rightarrow> string"
  os_path_exists :: "string \<Rightarrow> bool"
  keras_load_model :: "string \<Rightarrow> exn + keras_model"               \<comment> \<open>\<^verbatim>\<open>tf.keras.models.load_model\<close>\<close>
  http_exception_str :: "nat \<Rightarrow> string \<Rightarrow> string"                 \<comment> \<open>\<^verbatim>\<open>str\<close> of an \<^verbatim>\<open>HTTPException\<close>\<close>

text \<open>\<^verbatim>\<open>str(e)\<close>: the text of a built-in exception is its argument.\<close>

fun exn_str :: "libs \<Rightarrow> exn \<Rightarrow> string" where
  "exn_str lib (HTTPException c d) = http_exception_str lib c d"
| "exn_str lib (ValueError m) = m"
| "exn_str lib (FileNotFoundError m) = m"
| "exn_str lib (IndexError m) = m"
| "exn_str lib (AttributeError m) = m"
| "exn_str lib (KeyError m) = m"
| "exn_str lib (LibraryError m) = m"

text \<open>
  \<^verbatim>\<open>np.array(image, dtype=np.float32)\<close> for an image of 8-bit bands: shape
  (height, width, bands), or (height, width) for a single band; every byte is
  exactly representable in binary32.
\<close>

definition np_array_float32 :: "pil_image \<Rightarrow> ndarray" where
  "np_array_float32 im =
     (let w = fst (im_size im); h = snd (im_size im); n = length (getbands (im_mode im))
      in \<lparr>nd_shape = (if n = 1 then [h, w] else [h, w, n]),
          nd_dtype = Float32,
          nd_data = map (\<lambda>b. real (unat b)) (im_bytes im)\<rparr>)"

text \<open>\<^verbatim>\<open>a / c\<close> for a \<open>Float32\<close> array and a Python float: the quotients are binary32.\<close>

definition true_divide :: "ndarray \<Rightarrow> real \<Rightarrow> ndarray" where
  "true_divide a c = a\<lparr>nd_data := map (\<lambda>v. f32_round (v / c)) (nd_data a)\<rparr>"

text \<open>\<^verbatim>\<open>np.expand_dims(a, axis=0)\<close>\<close>

definition expand_dims0 :: "ndarray \<Rightarrow> ndarray" where
  "expand_dims0 a = a\<lparr>nd_shape := 1 # nd_shape a\<rparr>"

text \<open>
  \<^verbatim>\<open>tf.nn.softmax\<close> on a vector, as TensorFlow documents it:
  \<^verbatim>\<open>exp(logits) / reduce_sum(exp(logits))\<close>. This is the exact function on
  real scores. TensorFlow computes it in binary32, where the probabilities are
  rounded and a score that is not finite gives NaN; that arithmetic belongs to
  TensorFlow's kernel and is not modelled, so no theorem here bounds the
  probabilities or their sum. The theorems on the module concern which score
  vector is selected, how many entries the mapping has and in which order.
\<close>

definition softmax :: "real list \<Rightarrow> real list" where
  "softmax logits = map (\<lambda>s. exp s / sum_list (map exp logits)) logits"

text \<open>
  \<^verbatim>\<open>dict(pairs)\<close>: the pairs are inserted from the left; a key that is already
  there keeps its place and takes the new value. The result lists the items in
  the order in which the dict enumerates them.
\<close>

definition py_dict :: "('k \<times> 'v) list \<Rightarrow> ('k \<times> 'v) list" where
  "py_dict pairs = foldl (\<lambda>d (k, v). AList.update k v d) [] pairs"

subsection \<open>Module constants\<close>

definition IMAGE_SIZE :: "nat \<times> nat" where
  "IMAGE_SIZE = (224, 224)"

definition NORMALIZATION_FACTOR :: real where
  "NORMALIZATION_FACTOR = 255"

definition FLOWER_CLASSES :: "string list" where
  "FLOWER_CLASSES = [''dandelion'', ''daisy'', ''tulips'', ''sunflowers'', ''roses'']"

text \<open>The text "image preprocessing failed: " of \<^verbatim>\<open>preprocess_image\<close>, in Korean.\<close>

definition MSG_PREPROCESS_FAILED :: string where
  "MSG_PREPROCESS_FAILED =
     [CHR 0xEC, CHR 0x9D, CHR 0xB4, CHR 0xEB, CHR 0xAF, CHR 0xB8, CHR 0xEC, CHR 0xA7,
      CHR 0x80, CHR 0x20, CHR 0xEC, CHR 0xA0, CHR 0x84, CHR 0xEC, CHR 0xB2, CHR 0x98,
      CHR 0xEB, CHR 0xA6, CHR 0xAC, CHR 0x20, CHR 0xEC, CHR 0x8B, CHR 0xA4, CHR 0xED,
      CHR 0x8C, CHR 0xA8, CHR 0x3A, CHR 0x20]"

text \<open>The text "model prediction failed." of \<^verbatim>\<open>predict_image\<close>, in Korean.\<close>

definition MSG_MODEL_FAILED :: string where
  "MSG_MODEL_FAILED =
     [CHR 0xEB, CHR 0xAA, CHR 0xA8, CHR 0xEB, CHR 0x8D, CHR 0xB8, CHR 0x20, CHR 0xEC,
      CHR 0x98, CHR 0x88, CHR 0xEC, CHR 0xB8, CHR 0xA1, CHR 0xEC, CHR 0x97, CHR 0x90,
      CHR 0x20, CHR 0xEC, CHR 0x8B, CHR 0xA4, CHR 0xED, CHR 0x8C, CHR 0xA8, CHR 0xED,
      CHR 0x96, CHR 0x88, CHR 0xEC, CHR 0x8A, CHR 0xB5, CHR 0xEB, CHR 0x8B, CHR 0x88,
      CHR 0xEB, CHR 0x8B, CHR 0xA4, CHR 0x2E]"

text \<open>The text "prediction failed: " of \<^verbatim>\<open>predict_image\<close>, in Korean.\<close>

definition MSG_PREDICT_FAILED :: string where
  "MSG_PREDICT_FAILED =
     [CHR 0xEC, CHR 0x98, CHR 0x88, CHR 0xEC, CHR 0xB8, CHR 0xA1, CHR 0x20, CHR 0xEC,
      CHR 0x8B, CHR 0xA4, CHR 0xED, CHR 0x8C, CHR 0xA8, CHR 0x3A, CHR 0x20]"

subsection \<open>\<^verbatim>\<open>load_model\<close>\<close>

definition load_model :: "libs \<Rightarrow> exn + keras_model" where
  "load_model lib =
     (let model_path = os_path_expanduser lib ''./base_model.keras''
      in if \<not> os_path_exists lib model_path
         then Inl (FileNotFoundError (''Model file not found: '' @ model_path))
         else and_then (keras_load_model lib model_path) (\<lambda>model. Inr model))"

subsection \<open>\<^verbatim>\<open>preprocess_image\<close>\<close>

definition preprocess_image :: "libs \<Rightarrow> pil_image \<Rightarrow> nat \<times> nat \<Rightarrow> exn + ndarray" where
  "preprocess_image lib img target_sz =
     try_except
       (and_then (pil_convert lib img ''RGB'') (\<lambda>img1.
        and_then (pil_resize lib img1 target_sz) (\<lambda>img2.
        let img_array = true_divide (np_array_float32 img2) NORMALIZATION_FACTOR;
            img_array = expand_dims0 img_array
        in Inr img_array)))
       (\<lambda>e. Inl (ValueError (MSG_PREPROCESS_FAILED @ exn_str lib e)))"

subsection \<open>\<^verbatim>\<open>predict_image\<close>\<close>

text \<open>
  \<^verbatim>\<open>predictions.keys()\<close>, \<^verbatim>\<open>list(...)[0]\<close>, \<^verbatim>\<open>predictions[output_key]\<close>
  and \<^verbatim>\<open>outputs[0]\<close>, each with the exception it raises. The module never
  reads the text of these exceptions outside the log: the handler of the inner
  \<^verbatim>\<open>try\<close> replaces them by a fixed text. A lookup in an object without
  \<^verbatim>\<open>keys()\<close> is never reached, since \<^verbatim>\<open>keys()\<close> is called first.
\<close>

definition result_keys :: "model_result \<Rightarrow> exn + string list" where
  "result_keys predictions =
     (case predictions of
        Keyed kvs \<Rightarrow> Inr (map fst kvs)
      | Unkeyed msg \<Rightarrow> Inl (AttributeError msg))"

definition first_item :: "'a list \<Rightarrow> exn + 'a" where
  "first_item xs =
     (case xs of
        [] \<Rightarrow> Inl (IndexError ''list index out of range'')
      | x # _ \<Rightarrow> Inr x)"

definition result_getitem :: "model_result \<Rightarrow> string \<Rightarrow> exn + real list list" where
  "result_getitem predictions key =
     (case predictions of
        Keyed kvs \<Rightarrow>
          (case map_of kvs key of
             Some outputs \<Rightarrow> Inr outputs
           | None \<Rightarrow> Inl (KeyError key))
      | Unkeyed msg \<Rightarrow> Inl (LibraryError msg))"

definition first_row :: "real list list \<Rightarrow> exn + real list" where
  "first_row outputs =
     (case outputs of
        [] \<Rightarrow> Inl (LibraryError ''slice index 0 of dimension 0 out of bounds.'')
      | row # _ \<Rightarrow> Inr row)"

text \<open>
  The body of the inner \<^verbatim>\<open>try\<close> of \<^verbatim>\<open>predict_image\<close> (the call of the
  model, the choice of the output and the softmax).
\<close>

definition invoke_model :: "keras_model \<Rightarrow> ndarray \<Rightarrow> exn + real list" where
  "invoke_model model preprocessed_img =
     and_then (model preprocessed_img) (\<lambda>predictions.
     and_then (result_keys predictions) (\<lambda>keys.
     and_then (first_item keys) (\<lambda>output_key.
     and_then (result_getitem predictions output_key) (\<lambda>outputs.
     and_then (first_row outputs) (\<lambda>row.
     let probabilities = softmax row
     in Inr probabilities)))))"

definition predict_image :: "libs \<Rightarrow> keras_model \<Rightarrow> pil_image \<Rightarrow> exn + (string \<times> real) list" where
  "predict_image lib model img =
     try_except
       (and_then (preprocess_image lib img IMAGE_SIZE) (\<lambda>preprocessed_img.
        and_then
          (try_except
             (invoke_model model preprocessed_img)
             (\<lambda>prediction_error. Inl (HTTPException 500 MSG_MODEL_FAILED)))
          (\<lambda>probabilities.
        let class_probabilities = py_dict (zip FLOWER_CLASSES probabilities)
        in Inr class_probabilities)))
       (\<lambda>e. Inl (HTTPException 500 (MSG_PREDICT_FAILED @ exn_str lib e)))"

subsection \<open>The routes\<close>

text \<open>The welcome text of \<^verbatim>\<open>get_root\<close>, in Korean.\<close>

definition get_root :: string where
  "get_root =
     [CHR 0xEA, CHR 0xBD, CHR 0x83, CHR 0x20, CHR 0xEC, CHR 0x9D, CHR 0xB4, CHR 0xEB,
      CHR 0xAF, CHR 0xB8, CHR 0xEC, CHR 0xA7, CHR 0x80, CHR 0x20, CHR 0xEB, CHR 0xB6,
      CHR 0x84, CHR 0xEB, CHR 0xA5, CHR 0x98, CHR 0x20, CHR 0x41, CHR 0x50, CHR 0x49,
      CHR 0xEC, CHR 0x97, CHR 0x90, CHR 0x20, CHR 0xEC, CHR 0x98, CHR 0xA4, CHR 0xEC,
      CHR 0x8B, CHR 0xA0, CHR 0x20, CHR 0xEA, CHR 0xB2, CHR 0x83, CHR 0xEC, CHR 0x9D,
      CHR 0x84, CHR 0x20, CHR 0xED, CHR 0x99, CHR 0x98, CHR 0xEC, CHR 0x98, CHR 0x81,
      CHR 0xED, CHR 0x95, CHR 0xA9, CHR 0xEB, CHR 0x8B, CHR 0x88, CHR 0xEB, CHR 0x8B,
      CHR 0xA4, CHR 0x21]"

text \<open>
  An uploaded file is given by what \<^verbatim>\<open>await file.read()\<close> yields: the bytes,
  or the exception of a failed read.
\<close>

type_synonym upload_file = "exn + byte list"

definition predict_flower ::
  "libs \<Rightarrow> keras_model \<Rightarrow> upload_file \<Rightarrow> exn + (string \<times> (string \<times> real) list) list" where
  "predict_flower lib model file =
     try_except
       (and_then file (\<lambda>contents.
        and_then (pil_open lib contents) (\<lambda>opened.
        and_then (pil_convert lib opened ''RGB'') (\<lambda>img.
        and_then (predict_image lib model img) (\<lambda>result.
        Inr [(''predictions'', result)])))))
       (\<lambda>e. Inl (HTTPException 500 (exn_str lib e)))"

subsection \<open>The module and the process\<close>

text \<open>
  Importing the module runs its statements from the top. The only one that can
  raise is \<^verbatim>\<open>model = load_model()\<close>; the two routes are registered after it.
  An exception ends the import, and with it the process, before the server
  exists. The server that the import leaves holds the loaded model for the
  lifetime of the process: no function of the module assigns \<^verbatim>\<open>model\<close> again.
\<close>

record server =
  srv_model :: keras_model

definition module_init :: "libs \<Rightarrow> exn + server" where
  "module_init lib = and_then (load_model lib) (\<lambda>model. Inr \<lparr>srv_model = model\<rparr>)"

datatype request = Get_root | Post_predict upload_file

datatype response =
    Ok_text string
  | Ok_json "(string \<times> (string \<times> real) list) list"
  | Http_error nat string        \<comment> \<open>status code and \<^verbatim>\<open>{"detail": ...}\<close>\<close>

text \<open>
  FastAPI answers an \<^verbatim>\<open>HTTPException\<close> of a route with its status code and
  detail, and any other exception with status 500.
\<close>

definition handle_request :: "libs \<Rightarrow> server \<Rightarrow> request \<Rightarrow> response" where
  "handle_request lib srv req =
     (case req of
        Get_root \<Rightarrow> Ok_text get_root
      | Post_predict file \<Rightarrow>
          (case predict_flower lib (srv_model srv) file of
             Inr body \<Rightarrow> Ok_json body
           | Inl (HTTPException status_code detail) \<Rightarrow> Http_error status_code detail
           | Inl _ \<Rightarrow> Http_error 500 ''Internal Server Error''))"

text \<open>The process: the import of the module, then the requests in the order they arrive.\<close>

definition serve :: "libs \<Rightarrow> request list \<Rightarrow> exn + response list" where
  "serve lib reqs =
     and_then (module_init lib) (\<lambda>srv. Inr (map (handle_request lib srv) reqs))"

subsection \<open>What Pillow documents\<close>

text \<open>
  \<^verbatim>\<open>convert\<close> returns a converted copy in the requested mode and of the same
  size; converting an image that is already in the requested mode returns a
  copy of it. \<^verbatim>\<open>resize\<close> returns a copy of the requested size in the same mode.
\<close>

definition pil_contract :: "libs \<Rightarrow> bool" where
  "pil_contract lib \<longleftrightarrow>
     (\<forall>im m r. pil_convert lib im m = Inr r \<longrightarrow> getbands m \<noteq> [] \<longrightarrow>
        im_mode r = m \<and> im_size r = im_size im \<and> wf_image r) \<and>
     (\<forall>im m r. pil_convert lib im m = Inr r \<longrightarrow> pil_convert lib r m = Inr r) \<and>
     (\<forall>im sz r. pil_resize lib im sz = Inr r \<longrightarrow>
        im_mode r = im_mode im \<and> im_size r = sz \<and> (wf_image im \<longrightarrow> wf_image r))"

subsection \<open>A small instance of the libraries\<close>

text \<open>
  An instance of \<open>libs\<close> on which the functions of the module can be run: a raw
  greyscale format (one byte of width, one of height, then the pixels), the
  conversion of greyscale to RGB, and nearest-neighbour resizing. It shows that
  \<open>pil_contract\<close> can be met and serves as the concrete input of the examples.
\<close>

definition demo_open :: "byte list \<Rightarrow> exn + pil_image" where
  "demo_open contents =
     (case contents of
        w # h # pixels \<Rightarrow>
          if length pixels = unat h * unat w
          then Inr \<lparr>im_mode = ''L'', im_size = (unat w, unat h), im_bytes = pixels\<rparr>
          else Inl (LibraryError ''cannot identify image file'')
      | _ \<Rightarrow> Inl (LibraryError ''cannot identify image file''))"

definition demo_convert :: "pil_image \<Rightarrow> string \<Rightarrow> exn + pil_image" where
  "demo_convert im m =
     (if \<not> wf_image im then Inl (LibraryError ''broken image'')
      else if im_mode im = m then Inr im
      else if im_mode im = ''L'' \<and> m = ''RGB''
      then Inr \<lparr>im_mode = ''RGB'', im_size = im_size im,
                im_bytes = concat (map (\<lambda>b. [b, b, b]) (im_bytes im))\<rparr>
      else Inl (ValueError ''conversion not supported''))"

definition demo_pixel :: "pil_image \<Rightarrow> nat \<Rightarrow> nat \<Rightarrow> byte list" where
  "demo_pixel im x y =
     (let n = length (getbands (im_mode im)); w = fst (im_size im)
      in take n (drop ((y * w + x) * n) (im_bytes im) @ replicate n 0))"

definition demo_resized :: "pil_image \<Rightarrow> nat \<times> nat \<Rightarrow> pil_image" where
  "demo_resized im sz =
     \<lparr>im_mode = im_mode im, im_size = sz,
      im_bytes =
        concat (map (\<lambda>y.
          concat (map (\<lambda>x.
            demo_pixel im (x * fst (im_size im) div fst sz) (y * snd (im_size im) div snd sz))
            [0..<fst sz]))
          [0..<snd sz])\<rparr>"

definition demo_resize :: "pil_image \<Rightarrow> nat \<times> nat \<Rightarrow> exn + pil_image" where
  "demo_resize im sz = Inr (demo_resized im sz)"

definition demo_libs :: "bool \<Rightarrow> keras_model \<Rightarrow> libs" where
  "demo_libs present model =
     \<lparr>pil_open = demo_open,
      pil_convert = demo_convert,
      pil_resize = demo_resize,
      os_path_expanduser = (\<lambda>path. path),
      os_path_exists = (\<lambda>path. present \<and> path = ''./base_model.keras''),
      keras_load_model = (\<lambda>path. Inr model),
      http_exception_str = (\<lambda>status_code detail. detail)\<rparr>"

definition demo_image :: pil_image where
  "demo_image = \<lparr>im_mode = ''L'', im_size = (2, 2), im_bytes = [0, 85, 170, 255]\<rparr>"

definition demo_rgb :: pil_image where
  "demo_rgb =
     \<lparr>im_mode = ''RGB'', im_size = (2, 2),
      im_bytes = [0, 0, 0, 85, 85, 85, 170, 170, 170, 255, 255, 255]\<rparr>"

definition demo_model :: "real list \<Rightarrow> keras_model" where
  "demo_model scores = (\<lambda>tensor. Inr (Keyed [(''output_0'', [scores])]))"

section \<open>Properties\<close>

subsection \<open>Facts about the building blocks\<close>

lemma update_fresh: "k \<notin> fst ` set al \<Longrightarrow> AList.update k v al = al @ [(k, v)]"
  by (induction al) auto

lemma foldl_update_distinct:
  "distinct (map fst (acc @ ps)) \<Longrightarrow>
   foldl (\<lambda>d (k, v). AList.update k v d) acc ps = acc @ ps"
proof (induction ps arbitrary: acc)
  case Nil
  then show ?case by simp
next
  case (Cons p ps)
  obtain k v where p: "p = (k, v)" by (cases p)
  from Cons.prems have fresh: "k \<notin> fst ` set acc"
    by (auto simp: p)
  from Cons.prems have "distinct (map fst ((acc @ [(k, v)]) @ ps))"
    by (auto simp: p)
  then have "foldl (\<lambda>d (k, v). AList.update k v d) (acc @ [(k, v)]) ps = (acc @ [(k, v)]) @ ps"
    by (rule Cons.IH)
  then show ?case
    by (simp add: p update_fresh [OF fresh])
qed

lemma py_dict_distinct: "distinct (map fst ps) \<Longrightarrow> py_dict ps = ps"
  unfolding py_dict_def using foldl_update_distinct [of "[]" ps] by simp

lemma distinct_FLOWER_CLASSES: "distinct FLOWER_CLASSES"
  by (simp add: FLOWER_CLASSES_def)

lemma length_FLOWER_CLASSES: "length FLOWER_CLASSES = 5"
  by (simp add: FLOWER_CLASSES_def)

lemma length_softmax: "length (softmax s) = length s"
  by (simp add: softmax_def)

lemma and_then_Inl [simp]: "and_then (Inl e) f = Inl e"
  by (simp add: and_then_def)

lemma and_then_Inr [simp]: "and_then (Inr v) f = f v"
  by (simp add: and_then_def)

lemma try_except_Inl [simp]: "try_except (Inl e) h = h e"
  by (simp add: try_except_def)

lemma try_except_Inr [simp]: "try_except (Inr v) h = Inr v"
  by (simp add: try_except_def)

subsection \<open>Binary32 rounding keeps the unit interval\<close>

lemma power_int_two_le_one: "(2::real) powi e \<le> 1 \<Longrightarrow> e \<le> 0"
  by (metis nle_le of_int_1_less_iff of_int_numeral one_add_one
    power_int_0_right power_int_le_imp_le_exp zless_add1_eq)

lemma inverse_quantum:
  assumes "e \<le> 0"
  shows "1 / ((2::real) powi (e - 23)) = of_int (2 ^ nat (23 - e))"
proof -
  have "1 / (2::real) powi (e - 23) = 2 powi (- (e - 23))"
    by (simp only: power_int_minus inverse_eq_divide)
  also have "\<dots> = 2 powi (23 - e)" by simp
  also have "\<dots> = 2 ^ nat (23 - e)"
    using assms by (simp add: power_int_nonneg_exp)
  finally show ?thesis by simp
qed

lemma round_half_even_nonneg: "0 \<le> y \<Longrightarrow> 0 \<le> round_half_even y"
  by (auto simp: round_half_even_def Let_def)

lemma round_half_even_le: "y \<le> of_int n \<Longrightarrow> round_half_even y \<le> n"
  unfolding round_half_even_def Let_def
  by (auto; linarith)

lemma f32_exponent_le0: "\<bar>x\<bar> \<le> 1 \<Longrightarrow> f32_exponent x \<le> 0"
proof (cases "List.find (\<lambda>e. 2 powi e \<le> \<bar>x\<bar>) (rev [-126..127])")
  case None
  then show ?thesis by (simp add: f32_exponent_def)
next
  case (Some e)
  assume x: "\<bar>x\<bar> \<le> 1"
  from Some have "(2::real) powi e \<le> \<bar>x\<bar>"
    by (auto simp: find_Some_iff)
  with x have "(2::real) powi e \<le> 1" by linarith
  then have "e \<le> 0" by (rule power_int_two_le_one)
  with Some show ?thesis by (simp add: f32_exponent_def)
qed

lemma f32_round_unit:
  assumes "0 \<le> x" "x \<le> 1"
  shows "0 \<le> f32_round x \<and> f32_round x \<le> 1"
proof -
  define e where "e = f32_exponent x"
  define q :: real where "q = 2 powi (e - 23)"
  have e: "e \<le> 0" using assms f32_exponent_le0 [of x] by (simp add: e_def)
  have q: "0 < q" by (simp add: q_def)
  have inv: "1 / q = of_int (2 ^ nat (23 - e))"
    unfolding q_def using e by (rule inverse_quantum)
  have "x / q \<le> 1 / q"
    using assms q by (simp add: divide_right_mono)
  then have "x / q \<le> of_int (2 ^ nat (23 - e))"
    by (simp only: inv)
  then have "round_half_even (x / q) \<le> 2 ^ nat (23 - e)" by (rule round_half_even_le)
  then have "of_int (round_half_even (x / q)) * q \<le> of_int (2 ^ nat (23 - e)) * q"
    using q by (simp only: mult_le_cancel_right_pos of_int_le_iff)
  also have "\<dots> = 1" using inv q by (simp add: field_simps)
  finally have up: "f32_round x \<le> 1" by (simp add: f32_round_def q_def e_def Let_def)
  have "0 \<le> x / q" using assms q by simp
  then have "0 \<le> round_half_even (x / q)" by (rule round_half_even_nonneg)
  then have "0 \<le> f32_round x" using q by (simp add: f32_round_def q_def e_def Let_def)
  with up show ?thesis by simp
qed

lemma normalized_byte_unit:
  fixes b :: byte
  shows "0 \<le> f32_round (real (unat b) / 255) \<and> f32_round (real (unat b) / 255) \<le> 1"
proof (rule f32_round_unit)
  have nonneg: "0 \<le> real (unat b)" by (rule of_nat_0_le_iff)
  then show "0 \<le> real (unat b) / 255" by (rule divide_nonneg_pos) simp
  have "unat b < 2 ^ 8" using unsigned_less [of b] by simp
  then have "unat b \<le> 255" by simp
  then have "real (unat b) \<le> real 255" by (rule of_nat_mono)
  then have "real (unat b) / 255 \<le> real 255 / 255" by (rule divide_right_mono) simp
  then show "real (unat b) / 255 \<le> 1" by (simp del: of_nat_unat)
qed

text \<open>
  The rounding on two quotients of the module: 128 / 255 and 1 / 255 round to the
  binary32 numbers with the bit patterns \<^verbatim>\<open>0x3F008081\<close> and \<^verbatim>\<open>0x3B808081\<close>.
\<close>

lemma f32_round_examples:
  "f32_round (128 / 255) = 8421505 / 2 ^ 24"
  "f32_round (1 / 255) = 8421505 / 2 ^ 31"
  "f32_round (255 / 255) = 1"
  "f32_round (0 / 255) = 0"
  by code_simp+

subsection \<open>Properties of \<^verbatim>\<open>preprocess_image\<close>\<close>

lemma getbands_RGB: "getbands ''RGB'' = [''R'', ''G'', ''B'']"
  by (simp add: getbands_def)

lemma preprocess_image_Inr:
  assumes "pil_convert lib img ''RGB'' = Inr rgb"
    and "pil_resize lib rgb sz = Inr small"
  shows "preprocess_image lib img sz =
         Inr (expand_dims0 (true_divide (np_array_float32 small) NORMALIZATION_FACTOR))"
  using assms by (simp add: preprocess_image_def)

lemma preprocess_image_Inl_convert:
  assumes "pil_convert lib img ''RGB'' = Inl e"
  shows "preprocess_image lib img sz = Inl (ValueError (MSG_PREPROCESS_FAILED @ exn_str lib e))"
  using assms by (simp add: preprocess_image_def)

lemma preprocess_image_Inl_resize:
  assumes "pil_convert lib img ''RGB'' = Inr rgb"
    and "pil_resize lib rgb sz = Inl e"
  shows "preprocess_image lib img sz = Inl (ValueError (MSG_PREPROCESS_FAILED @ exn_str lib e))"
  using assms by (simp add: preprocess_image_def)

lemma contract_resized_rgb:
  assumes c: "pil_contract lib"
    and conv: "pil_convert lib img ''RGB'' = Inr rgb"
    and res: "pil_resize lib rgb sz = Inr small"
  shows "im_mode small = ''RGB'' \<and> im_size small = sz \<and> wf_image small"
proof -
  from c conv have rgb: "im_mode rgb = ''RGB'' \<and> wf_image rgb"
    unfolding pil_contract_def using getbands_RGB by (metis list.distinct(1))
  from c res have "im_mode small = im_mode rgb \<and> im_size small = sz \<and> (wf_image rgb \<longrightarrow> wf_image small)"
    unfolding pil_contract_def by blast
  with rgb show ?thesis by simp
qed

text \<open>
  Claim C1. For every image that Pillow converts to RGB and resizes,
  \<^verbatim>\<open>preprocess_image\<close> returns a tensor of shape (1, 224, 224, 3) and element
  type float32; its elements are the binary32 quotients of the 8-bit intensities
  of the resized RGB image by 255.0, so each lies in the closed interval [0, 1].
\<close>

theorem preprocess_image_tensor:
  assumes "pil_contract lib"
    and "pil_convert lib img ''RGB'' = Inr rgb"
    and "pil_resize lib rgb IMAGE_SIZE = Inr small"
  shows "\<exists>t. preprocess_image lib img IMAGE_SIZE = Inr t \<and>
             nd_shape t = [1, 224, 224, 3] \<and>
             nd_dtype t = Float32 \<and>
             length (nd_data t) = 1 * 224 * 224 * 3 \<and>
             nd_data t = map (\<lambda>b. f32_round (real (unat b) / 255)) (im_bytes small) \<and>
             (\<forall>v \<in> set (nd_data t). 0 \<le> v \<and> v \<le> 1)"
proof -
  let ?t = "expand_dims0 (true_divide (np_array_float32 small) NORMALIZATION_FACTOR)"
  from assms have small: "im_mode small = ''RGB''" "im_size small = (224, 224)" "wf_image small"
    using contract_resized_rgb [of lib img rgb IMAGE_SIZE small] by (simp_all add: IMAGE_SIZE_def)
  have run: "preprocess_image lib img IMAGE_SIZE = Inr ?t"
    using assms(2,3) by (rule preprocess_image_Inr)
  have shape: "nd_shape ?t = [1, 224, 224, 3]"
    using small by (simp add: expand_dims0_def true_divide_def np_array_float32_def getbands_RGB)
  have dt: "nd_dtype ?t = Float32"
    by (simp add: expand_dims0_def true_divide_def np_array_float32_def Let_def)
  have data: "nd_data ?t = map (\<lambda>b. f32_round (real (unat b) / 255)) (im_bytes small)"
    by (simp add: expand_dims0_def true_divide_def np_array_float32_def Let_def
        NORMALIZATION_FACTOR_def o_def)
  have len: "length (nd_data ?t) = 1 * 224 * 224 * 3"
    using small by (simp add: data wf_image_def getbands_RGB)
  have range: "\<forall>v \<in> set (nd_data ?t). 0 \<le> v \<and> v \<le> 1"
    unfolding data using normalized_byte_unit by auto
  from run shape dt len data range show ?thesis by blast
qed

subsection \<open>The small instance meets the contract\<close>

lemma length_demo_pixel: "length (demo_pixel im x y) = length (getbands (im_mode im))"
  by (simp add: demo_pixel_def Let_def)

lemma wf_demo_resized: "wf_image im \<Longrightarrow> wf_image (demo_resized im sz)"
  by (simp add: wf_image_def demo_resized_def length_concat o_def length_demo_pixel sum_list_triv)

lemma demo_convert_result:
  assumes "demo_convert im m = Inr r"
  shows "im_mode r = m \<and> im_size r = im_size im \<and> wf_image r"
  using assms
  by (auto simp: demo_convert_def wf_image_def getbands_def length_concat o_def sum_list_triv
      split: if_splits)

lemma demo_convert_again:
  assumes "demo_convert im m = Inr r"
  shows "demo_convert r m = Inr r"
  using demo_convert_result [OF assms] by (simp add: demo_convert_def)

lemma demo_resized_fields:
  "im_mode (demo_resized im sz) = im_mode im" "im_size (demo_resized im sz) = sz"
  by (simp_all add: demo_resized_def)

lemma demo_contract: "pil_contract (demo_libs present model)"
  unfolding pil_contract_def
  by (auto simp: demo_libs_def demo_resize_def demo_convert_result demo_convert_again
      wf_demo_resized demo_resized_fields)

lemma demo_convert_image: "pil_convert (demo_libs present model) demo_image ''RGB'' = Inr demo_rgb"
  by (simp add: demo_libs_def demo_convert_def demo_image_def demo_rgb_def wf_image_def getbands_def)

lemma demo_resize_rgb:
  "pil_resize (demo_libs present model) demo_rgb sz = Inr (demo_resized demo_rgb sz)"
  by (simp add: demo_libs_def demo_resize_def)

lemma demo_preprocess:
  "preprocess_image (demo_libs present model) demo_image sz =
   Inr (expand_dims0 (true_divide (np_array_float32 (demo_resized demo_rgb sz)) NORMALIZATION_FACTOR))"
  using demo_convert_image demo_resize_rgb by (rule preprocess_image_Inr)

theorem preprocess_image_tensor_witness:
  "pil_contract (demo_libs True (demo_model [0, 0, 0, 0, 0])) \<and>
   pil_convert (demo_libs True (demo_model [0, 0, 0, 0, 0])) demo_image ''RGB'' = Inr demo_rgb \<and>
   pil_resize (demo_libs True (demo_model [0, 0, 0, 0, 0])) demo_rgb IMAGE_SIZE =
     Inr (demo_resized demo_rgb IMAGE_SIZE) \<and>
   (\<exists>t. preprocess_image (demo_libs True (demo_model [0, 0, 0, 0, 0])) demo_image IMAGE_SIZE = Inr t \<and>
        nd_shape t = [1, 224, 224, 3] \<and>
        nd_dtype t = Float32 \<and>
        length (nd_data t) = 1 * 224 * 224 * 3 \<and>
        nd_data t =
          map (\<lambda>b. f32_round (real (unat b) / 255)) (im_bytes (demo_resized demo_rgb IMAGE_SIZE)) \<and>
        (\<forall>v \<in> set (nd_data t). 0 \<le> v \<and> v \<le> 1))"
  using preprocess_image_tensor [OF demo_contract demo_convert_image demo_resize_rgb]
    demo_contract demo_convert_image demo_resize_rgb
  by blast

subsection \<open>Properties of \<^verbatim>\<open>predict_image\<close>\<close>

lemma invoke_model_keyed:
  assumes "model t = Inr (Keyed ((k, outputs) # rest))"
  shows "invoke_model model t = and_then (first_row outputs) (\<lambda>row. Inr (softmax row))"
  using assms
  by (simp add: invoke_model_def result_keys_def first_item_def result_getitem_def)

lemma invoke_model_row:
  assumes "model t = Inr (Keyed ((k, row # rows) # rest))"
  shows "invoke_model model t = Inr (softmax row)"
  using assms invoke_model_keyed [of model t k "row # rows" rest] by (simp add: first_row_def)

lemma invoke_model_raises:
  assumes "model t = Inl e"
  shows "invoke_model model t = Inl e"
  using assms by (simp add: invoke_model_def)



lemma invoke_model_empty_batch:
  assumes "model t = Inr (Keyed ((k, []) # rest))"
  shows "\<exists>e. invoke_model model t = Inl e"
  using assms invoke_model_keyed [of model t k "[]" rest] by (simp add: first_row_def)

lemma map_fst_zip_classes:
  "map fst (zip FLOWER_CLASSES ps) = take (length ps) FLOWER_CLASSES"
  by (simp add: map_fst_zip_take min_def)

lemma zip_classes_dict: "py_dict (zip FLOWER_CLASSES ps) = zip FLOWER_CLASSES ps"
proof (rule py_dict_distinct)
  have "map fst (zip FLOWER_CLASSES ps) = take (length ps) FLOWER_CLASSES"
    by (rule map_fst_zip_classes)
  then show "distinct (map fst (zip FLOWER_CLASSES ps))"
    using distinct_FLOWER_CLASSES by (simp add: distinct_take)
qed

lemma predict_image_Inr:
  assumes "preprocess_image lib img IMAGE_SIZE = Inr t"
    and "invoke_model model t = Inr probabilities"
  shows "predict_image lib model img = Inr (zip FLOWER_CLASSES probabilities)"
  using assms by (simp add: predict_image_def zip_classes_dict)

lemma predict_image_Inl_model:
  assumes "preprocess_image lib img IMAGE_SIZE = Inr t"
    and "invoke_model model t = Inl raw"
  shows "predict_image lib model img =
         Inl (HTTPException 500
               (MSG_PREDICT_FAILED @ exn_str lib (HTTPException 500 MSG_MODEL_FAILED)))"
  using assms by (simp add: predict_image_def)

lemma predict_image_Inl_preprocess:
  assumes "preprocess_image lib img IMAGE_SIZE = Inl e"
  shows "predict_image lib model img = Inl (HTTPException 500 (MSG_PREDICT_FAILED @ exn_str lib e))"
  using assms by (simp add: predict_image_def)

lemma predict_image_error_kind:
  assumes "predict_image lib model img = Inl e"
  shows "\<exists>detail. e = HTTPException 500 detail"
proof (cases "preprocess_image lib img IMAGE_SIZE")
  case (Inl e')
  with assms show ?thesis by (auto simp: predict_image_Inl_preprocess)
next
  case (Inr t)
  show ?thesis
  proof (cases "invoke_model model t")
    case (Inl raw)
    with Inr assms show ?thesis by (auto simp: predict_image_Inl_model)
  next
    case Inr': (Inr ps)
    with Inr assms show ?thesis by (auto simp: predict_image_Inr)
  qed
qed

text \<open>
  Claim C9. For every probability vector of length at least 5, the mapping that
  \<^verbatim>\<open>predict_image\<close> returns enumerates its keys in the order dandelion, daisy,
  tulips, sunflowers, roses.
\<close>

theorem class_order:
  assumes "preprocess_image lib img IMAGE_SIZE = Inr t"
    and "invoke_model model t = Inr probabilities"
    and "5 \<le> length probabilities"
  shows "\<exists>m. predict_image lib model img = Inr m \<and>
             map fst m = [''dandelion'', ''daisy'', ''tulips'', ''sunflowers'', ''roses'']"
proof -
  have "predict_image lib model img = Inr (zip FLOWER_CLASSES probabilities)"
    using assms(1,2) by (rule predict_image_Inr)
  moreover have "map fst (zip FLOWER_CLASSES probabilities) = take (length probabilities) FLOWER_CLASSES"
    by (rule map_fst_zip_classes)
  moreover have "take (length probabilities) FLOWER_CLASSES = FLOWER_CLASSES"
    using assms(3) by (simp add: length_FLOWER_CLASSES)
  ultimately show ?thesis by (simp add: FLOWER_CLASSES_def)
qed

lemma demo_invoke: "invoke_model (demo_model scores) t = Inr (softmax scores)"
  using invoke_model_row [of "demo_model scores" t "''output_0''" scores "[]" "[]"]
  by (simp add: demo_model_def)

theorem class_order_witness:
  "preprocess_image (demo_libs True (demo_model [1 / 10, 1 / 10, 1 / 10, 1 / 10, 5])) demo_image IMAGE_SIZE =
     Inr (expand_dims0 (true_divide (np_array_float32 (demo_resized demo_rgb IMAGE_SIZE))
            NORMALIZATION_FACTOR)) \<and>
   5 \<le> length (softmax [1 / 10, 1 / 10, 1 / 10, 1 / 10, 5]) \<and>
   (\<exists>m. predict_image (demo_libs True (demo_model [1 / 10, 1 / 10, 1 / 10, 1 / 10, 5]))
          (demo_model [1 / 10, 1 / 10, 1 / 10, 1 / 10, 5]) demo_image = Inr m \<and>
        map fst m = [''dandelion'', ''daisy'', ''tulips'', ''sunflowers'', ''roses''])"
proof -
  have len: "5 \<le> length (softmax [1 / 10, 1 / 10, 1 / 10, 1 / 10, 5])"
    by (simp add: length_softmax)
  show ?thesis
    using class_order [OF demo_preprocess demo_invoke len] demo_preprocess len by blast
qed

lemma set_take_classes:
  "set (take n FLOWER_CLASSES) = set FLOWER_CLASSES \<longleftrightarrow> 5 \<le> n"
proof
  assume eq: "set (take n FLOWER_CLASSES) = set FLOWER_CLASSES"
  have "card (set (take n FLOWER_CLASSES)) = length (take n FLOWER_CLASSES)"
    using distinct_FLOWER_CLASSES by (simp add: distinct_card distinct_take)
  moreover have "card (set FLOWER_CLASSES) = 5"
    using distinct_FLOWER_CLASSES by (simp add: distinct_card length_FLOWER_CLASSES)
  ultimately have "min 5 n = 5"
    using eq by (simp add: length_FLOWER_CLASSES)
  then show "5 \<le> n" by simp
next
  assume "5 \<le> n"
  then show "set (take n FLOWER_CLASSES) = set FLOWER_CLASSES"
    by (simp add: length_FLOWER_CLASSES)
qed

text \<open>
  Claim C3, as stated, fails: a model that returns three scores gives a mapping
  with three class names.
\<close>

theorem label_pairing_counterexample:
  "predict_image (demo_libs True (demo_model [0, 0, 0])) (demo_model [0, 0, 0]) demo_image =
     Inr [(''dandelion'', 1 / 3), (''daisy'', 1 / 3), (''tulips'', 1 / 3)]"
proof -
  have "predict_image (demo_libs True (demo_model [0, 0, 0])) (demo_model [0, 0, 0]) demo_image =
        Inr (zip FLOWER_CLASSES (softmax [0, 0, 0]))"
    using demo_preprocess demo_invoke by (rule predict_image_Inr)
  then show ?thesis by (simp add: FLOWER_CLASSES_def softmax_def)
qed

text \<open>
  Claim C3, amended. For every raw score vector that the model returns as the
  first row of its first output, the mapping returned by \<^verbatim>\<open>predict_image\<close> is
  the zip of the fixed label list with the softmax of the scores, in order: a
  vector of length \<open>n\<close> gives the first \<open>min n 5\<close> class names with the first
  \<open>min n 5\<close> probabilities, and the mapping contains exactly the 5 class names if
  and only if \<open>n\<close> is at least 5.
\<close>

theorem label_pairing:
  assumes "preprocess_image lib img IMAGE_SIZE = Inr t"
    and "model t = Inr (Keyed ((k, row # rows) # rest))"
  shows "\<exists>m. predict_image lib model img = Inr m \<and>
             m = zip FLOWER_CLASSES (softmax row) \<and>
             map fst m = take (length row) FLOWER_CLASSES \<and>
             map snd m = take 5 (softmax row) \<and>
             (set (map fst m) = set FLOWER_CLASSES \<longleftrightarrow> 5 \<le> length row)"
proof -
  let ?m = "zip FLOWER_CLASSES (softmax row)"
  have "invoke_model model t = Inr (softmax row)"
    using assms(2) by (rule invoke_model_row)
  with assms(1) have run: "predict_image lib model img = Inr ?m"
    by (rule predict_image_Inr)
  have keys: "map fst ?m = take (length row) FLOWER_CLASSES"
    by (simp add: map_fst_zip_classes length_softmax)
  have vals: "map snd ?m = take 5 (softmax row)"
    by (simp add: map_snd_zip_take length_FLOWER_CLASSES min_def length_softmax)
  have "set (map fst ?m) = set FLOWER_CLASSES \<longleftrightarrow> 5 \<le> length row"
    unfolding keys by (rule set_take_classes)
  with run keys vals show ?thesis by blast
qed

theorem label_pairing_witness:
  "preprocess_image (demo_libs True (demo_model [1, 2, 3, 4, 5, 6])) demo_image IMAGE_SIZE =
     Inr (expand_dims0 (true_divide (np_array_float32 (demo_resized demo_rgb IMAGE_SIZE))
            NORMALIZATION_FACTOR)) \<and>
   (\<exists>m. predict_image (demo_libs True (demo_model [1, 2, 3, 4, 5, 6]))
          (demo_model [1, 2, 3, 4, 5, 6]) demo_image = Inr m \<and>
        m = zip FLOWER_CLASSES (softmax [1, 2, 3, 4, 5, 6]) \<and>
        map fst m = FLOWER_CLASSES \<and>
        map snd m = take 5 (softmax [1, 2, 3, 4, 5, 6]) \<and>
        set (map fst m) = set FLOWER_CLASSES)"
proof -
  let ?lib = "demo_libs True (demo_model [1, 2, 3, 4, 5, 6])"
  let ?t = "expand_dims0 (true_divide (np_array_float32 (demo_resized demo_rgb IMAGE_SIZE))
              NORMALIZATION_FACTOR)"
  have pre: "preprocess_image ?lib demo_image IMAGE_SIZE = Inr ?t"
    by (rule demo_preprocess)
  have m: "demo_model [1, 2, 3, 4, 5, 6] ?t =
           Inr (Keyed ((''output_0'', [1, 2, 3, 4, 5, 6] # []) # []))"
    by (simp add: demo_model_def)
  show ?thesis
    using label_pairing [of ?lib demo_image ?t "demo_model [1, 2, 3, 4, 5, 6]"
        "''output_0''" "[1, 2, 3, 4, 5, 6]" "[]" "[]", OF pre m] pre
    by (simp add: length_FLOWER_CLASSES)
qed



text \<open>
  Claim C8. Whatever exception the call of the model, the choice of the output or
  the softmax raises, \<^verbatim>\<open>predict_image\<close> raises an \<^verbatim>\<open>HTTPException\<close> with
  status 500 whose detail is built from the fixed text of the inference failure;
  the raw exception does not leave \<^verbatim>\<open>predict_image\<close>.
\<close>

theorem inference_failure_wrapped:
  assumes "preprocess_image lib img IMAGE_SIZE = Inr t"
    and "invoke_model model t = Inl raw"
  shows "predict_image lib model img =
         Inl (HTTPException 500
               (MSG_PREDICT_FAILED @ http_exception_str lib 500 MSG_MODEL_FAILED))"
  using predict_image_Inl_model [OF assms] by simp

theorem inference_failure_wrapped_witness:
  "invoke_model (\<lambda>tensor. Inl (LibraryError ''Incompatible shapes''))
     (expand_dims0 (true_divide (np_array_float32 (demo_resized demo_rgb IMAGE_SIZE))
        NORMALIZATION_FACTOR)) = Inl (LibraryError ''Incompatible shapes'') \<and>
   predict_image (demo_libs True (demo_model [])) (\<lambda>tensor. Inl (LibraryError ''Incompatible shapes''))
     demo_image = Inl (HTTPException 500 (MSG_PREDICT_FAILED @ MSG_MODEL_FAILED))"
proof -
  let ?lib = "demo_libs True (demo_model [])"
  let ?t = "expand_dims0 (true_divide (np_array_float32 (demo_resized demo_rgb IMAGE_SIZE))
              NORMALIZATION_FACTOR)"
  let ?model = "\<lambda>tensor::ndarray. Inl (LibraryError ''Incompatible shapes'') :: exn + model_result"
  have pre: "preprocess_image ?lib demo_image IMAGE_SIZE = Inr ?t"
    by (rule demo_preprocess)
  have raises: "invoke_model ?model ?t = Inl (LibraryError ''Incompatible shapes'')"
    by (simp add: invoke_model_def)
  have str: "http_exception_str ?lib 500 MSG_MODEL_FAILED = MSG_MODEL_FAILED"
    by (simp add: demo_libs_def)
  show ?thesis
    using inference_failure_wrapped [of ?lib demo_image ?t ?model, OF pre raises] raises str
    by simp
qed

subsection \<open>Two runs of \<^verbatim>\<open>preprocess_image\<close>\<close>

text \<open>
  Claim C6. Two calls of \<^verbatim>\<open>preprocess_image\<close> on the same image and target
  size give the same outcome, whatever else differs between the two runs (the
  loaded model, the file system, the other library calls): the outcome is a
  function of the image, the target size and Pillow's \<^verbatim>\<open>convert\<close> and
  \<^verbatim>\<open>resize\<close> alone.
\<close>

theorem preprocess_image_deterministic:
  assumes "pil_convert lib1 = pil_convert lib2"
    and "pil_resize lib1 = pil_resize lib2"
    and "http_exception_str lib1 = http_exception_str lib2"
  shows "preprocess_image lib1 img target_sz = preprocess_image lib2 img target_sz"
proof -
  have "exn_str lib1 e = exn_str lib2 e" for e
    using assms(3) by (cases e) simp_all
  then show ?thesis
    using assms(1,2) by (simp add: preprocess_image_def)
qed

theorem preprocess_image_deterministic_witness:
  "preprocess_image (demo_libs True (demo_model [0, 0, 0, 0, 0])) demo_image IMAGE_SIZE =
   preprocess_image (demo_libs False (demo_model [1, 2, 3])) demo_image IMAGE_SIZE"
  using preprocess_image_deterministic
    [of "demo_libs True (demo_model [0, 0, 0, 0, 0])" "demo_libs False (demo_model [1, 2, 3])"
        demo_image IMAGE_SIZE]
  by (simp add: demo_libs_def)

text \<open>
  Claim C10. For every image that Pillow converts to RGB, \<^verbatim>\<open>preprocess_image\<close>
  gives the same outcome on the converted image as on the image itself: the second
  conversion, inside \<^verbatim>\<open>preprocess_image\<close>, returns a copy.
\<close>

theorem rgb_conversion_idempotent:
  assumes "pil_contract lib"
    and "pil_convert lib img ''RGB'' = Inr rgb"
  shows "preprocess_image lib rgb target_sz = preprocess_image lib img target_sz"
proof -
  from assms have "pil_convert lib rgb ''RGB'' = Inr rgb"
    unfolding pil_contract_def by blast
  with assms(2) show ?thesis
    by (simp add: preprocess_image_def)
qed

theorem rgb_conversion_idempotent_witness:
  "pil_convert (demo_libs True (demo_model [])) demo_image ''RGB'' = Inr demo_rgb \<and>
   preprocess_image (demo_libs True (demo_model [])) demo_rgb IMAGE_SIZE =
   preprocess_image (demo_libs True (demo_model [])) demo_image IMAGE_SIZE"
  using rgb_conversion_idempotent [OF demo_contract demo_convert_image] demo_convert_image
  by blast

subsection \<open>Properties of \<^verbatim>\<open>predict_flower\<close>\<close>

lemma predict_flower_error_kind:
  assumes "predict_flower lib model file = Inl e"
  shows "\<exists>detail. e = HTTPException 500 detail"
  using assms by (auto simp: predict_flower_def try_except_def split: sum.splits)











subsection \<open>Loading the model\<close>

lemma load_model_missing:
  assumes "\<not> os_path_exists lib (os_path_expanduser lib ''./base_model.keras'')"
  shows "load_model lib =
         Inl (FileNotFoundError
               (''Model file not found: '' @ os_path_expanduser lib ''./base_model.keras''))"
  using assms by (simp add: load_model_def Let_def)

lemma load_model_present:
  assumes "os_path_exists lib (os_path_expanduser lib ''./base_model.keras'')"
  shows "load_model lib = keras_load_model lib (os_path_expanduser lib ''./base_model.keras'')"
  using assms by (cases "keras_load_model lib (os_path_expanduser lib ''./base_model.keras'')")
    (simp_all add: load_model_def Let_def)

lemma serve_load_failed:
  assumes "load_model lib = Inl e"
  shows "serve lib reqs = Inl e"
  using assms by (simp add: serve_def module_init_def)

lemma serve_loaded:
  assumes "serve lib reqs = Inr responses"
  shows "\<exists>model. os_path_exists lib (os_path_expanduser lib ''./base_model.keras'') \<and>
           keras_load_model lib (os_path_expanduser lib ''./base_model.keras'') = Inr model \<and>
           responses = map (handle_request lib \<lparr>srv_model = model\<rparr>) reqs"
proof (cases "os_path_exists lib (os_path_expanduser lib ''./base_model.keras'')")
  case False
  then have "serve lib reqs = Inl (FileNotFoundError
               (''Model file not found: '' @ os_path_expanduser lib ''./base_model.keras''))"
    by (intro serve_load_failed load_model_missing)
  with assms show ?thesis by simp
next
  case True
  then have load: "load_model lib = keras_load_model lib (os_path_expanduser lib ''./base_model.keras'')"
    by (rule load_model_present)
  show ?thesis
  proof (cases "load_model lib")
    case (Inl e)
    then have "serve lib reqs = Inl e" by (rule serve_load_failed)
    with assms show ?thesis by simp
  next
    case (Inr model)
    with assms have resp: "responses = map (handle_request lib \<lparr>srv_model = model\<rparr>) reqs"
      by (simp add: serve_def module_init_def)
    from load Inr
    have "keras_load_model lib (os_path_expanduser lib ''./base_model.keras'') = Inr model"
      by simp
    with True resp show ?thesis by blast
  qed
qed

text \<open>
  Claim C7. If the model file is missing, \<^verbatim>\<open>load_model\<close> raises
  \<^verbatim>\<open>FileNotFoundError\<close>; if Keras cannot load it, \<^verbatim>\<open>load_model\<close> raises
  the exception of Keras. An exception of \<^verbatim>\<open>load_model\<close> ends the import of
  the module, so the process answers no request. Whenever requests are answered,
  the file existed and was loaded, and every answer was computed with that one
  model. No request fails with an exception of loading: the handler of
  \<^verbatim>\<open>/predict\<close> only ever raises an \<^verbatim>\<open>HTTPException\<close> with status 500.
\<close>

theorem model_load_failure_is_fatal:
  "(\<not> os_path_exists lib (os_path_expanduser lib ''./base_model.keras'') \<longrightarrow>
      load_model lib =
        Inl (FileNotFoundError
              (''Model file not found: '' @ os_path_expanduser lib ''./base_model.keras''))) \<and>
   (\<forall>cause. os_path_exists lib (os_path_expanduser lib ''./base_model.keras'') \<longrightarrow>
      keras_load_model lib (os_path_expanduser lib ''./base_model.keras'') = Inl cause \<longrightarrow>
      load_model lib = Inl cause) \<and>
   (\<forall>e reqs. load_model lib = Inl e \<longrightarrow> module_init lib = Inl e \<and> serve lib reqs = Inl e) \<and>
   (\<forall>reqs responses. serve lib reqs = Inr responses \<longrightarrow>
      (\<exists>model. os_path_exists lib (os_path_expanduser lib ''./base_model.keras'') \<and>
         keras_load_model lib (os_path_expanduser lib ''./base_model.keras'') = Inr model \<and>
         responses = map (handle_request lib \<lparr>srv_model = model\<rparr>) reqs)) \<and>
   (\<forall>model file e. predict_flower lib model file = Inl e \<longrightarrow>
      (\<exists>detail. e = HTTPException 500 detail))"
proof (intro conjI allI impI)
  assume "\<not> os_path_exists lib (os_path_expanduser lib ''./base_model.keras'')"
  then show "load_model lib =
      Inl (FileNotFoundError
            (''Model file not found: '' @ os_path_expanduser lib ''./base_model.keras''))"
    by (rule load_model_missing)
next
  fix cause
  assume "os_path_exists lib (os_path_expanduser lib ''./base_model.keras'')"
    and "keras_load_model lib (os_path_expanduser lib ''./base_model.keras'') = Inl cause"
  then show "load_model lib = Inl cause"
    by (simp add: load_model_present)
next
  fix e reqs
  assume "load_model lib = Inl e"
  then show "module_init lib = Inl e"
    by (simp add: module_init_def)
next
  fix e reqs
  assume "load_model lib = Inl e"
  then show "serve lib reqs = Inl e"
    by (rule serve_load_failed)
next
  fix reqs responses
  assume "serve lib reqs = Inr responses"
  then show "\<exists>model. os_path_exists lib (os_path_expanduser lib ''./base_model.keras'') \<and>
      keras_load_model lib (os_path_expanduser lib ''./base_model.keras'') = Inr model \<and>
      responses = map (handle_request lib \<lparr>srv_model = model\<rparr>) reqs"
    by (rule serve_loaded)
next
  fix model upload e
  assume "predict_flower lib model upload = Inl e"
  then show "\<exists>detail. e = HTTPException 500 detail"
    by (rule predict_flower_error_kind)
qed

theorem model_load_failure_is_fatal_witness:
  "load_model (demo_libs False (demo_model [0, 0, 0, 0, 0])) =
     Inl (FileNotFoundError ''Model file not found: ./base_model.keras'') \<and>
   serve (demo_libs False (demo_model [0, 0, 0, 0, 0])) [Get_root, Post_predict (Inr [1, 1, 7])] =
     Inl (FileNotFoundError ''Model file not found: ./base_model.keras'')"
proof -
  let ?lib = "demo_libs False (demo_model [0, 0, 0, 0, 0])"
  have missing: "\<not> os_path_exists ?lib (os_path_expanduser ?lib ''./base_model.keras'')"
    by (simp add: demo_libs_def)
  have path: "os_path_expanduser ?lib ''./base_model.keras'' = ''./base_model.keras''"
    by (simp add: demo_libs_def)
  note fatal = model_load_failure_is_fatal [of ?lib]
  from fatal missing
  have load: "load_model ?lib =
      Inl (FileNotFoundError
            (''Model file not found: '' @ os_path_expanduser ?lib ''./base_model.keras''))"
    by blast
  from fatal load
  have "serve ?lib [Get_root, Post_predict (Inr [1, 1, 7])] =
      Inl (FileNotFoundError
            (''Model file not found: '' @ os_path_expanduser ?lib ''./base_model.keras''))"
    by blast
  with load show ?thesis
    by (simp only: path append.simps)
qed

end
